theory Spec2Isabelle
  imports Complex_Main "HOL-Library.Word"
begin

section \<open>JavaScript values\<close>

text \<open>
  The sources are TypeScript modules that run in a browser. Values that cross the RPC
  boundary are typed \<open>any\<close>, so the model keeps them as untyped JavaScript values.
  A number is a double: \<open>NaN\<close>, an infinity (\<open>True\<close> for the positive one) or a finite
  value; finite values are read as rationals (every finite double is one; minus zero is
  identified with zero, which agrees with it on truthiness and \<open>===\<close>).
  A string is a \<open>char list\<close>, one character for each code unit; HOL's characters
  are bytes, so the strings covered are those whose code units are below 256.
\<close>

datatype jsnum = NaN | Infinity bool | Finite rat

datatype jsval =
    Undefined
  | Null
  | JBool bool
  | JNum jsnum
  | JStr string
  | JArr "jsval list"
  | JObj "(string \<times> jsval) list"

text \<open>
  A thrown value: an \<open>Error\<close> with its message, a \<open>TypeError\<close> raised by the
  language itself (its message is the engine's own text, for which a wording close to
  V8's stands here), or any other value. What a rejected \<open>fetch\<close>, a failed
  \<open>response.json()\<close> or the wallet SDK throws is given by the environment.
\<close>

datatype js_exn = Error string | TypeError string | Thrown jsval

fun instanceof_Error :: "js_exn \<Rightarrow> bool" where
  "instanceof_Error (Error m) = True"
| "instanceof_Error (TypeError m) = True"
| "instanceof_Error (Thrown v) = False"

fun exn_message :: "js_exn \<Rightarrow> string" where
  "exn_message (Error m) = m"
| "exn_message (TypeError m) = m"
| "exn_message (Thrown v) = []"

text \<open>
  Built-ins of the platform whose results are not computed here: number formatting
  (\<open>Number.prototype.toString(radix)\<close>), \<open>parseInt\<close> on a string, \<open>Math.floor\<close>,
  floating-point multiplication, \<open>TextEncoder.encode\<close> and
  \<open>crypto.subtle.digest('SHA-256', _)\<close> (which rejects where \<open>crypto.subtle\<close> is
  unavailable). They are parameters of the model.
\<close>

record platform =
  Number_toString :: "jsnum \<Rightarrow> nat \<Rightarrow> string"
  parseInt :: "string \<Rightarrow> jsnum"
  Math_floor :: "jsnum \<Rightarrow> jsnum"
  num_times :: "jsnum \<Rightarrow> jsnum \<Rightarrow> jsnum"
  TextEncoder_encode :: "string \<Rightarrow> 8 word list"
  digest_SHA256 :: "8 word list \<Rightarrow> js_exn + 8 word list"

text \<open>Truthiness (\<open>ToBoolean\<close>), as used by \<open>if (x)\<close>, \<open>!x\<close>, \<open>x || y\<close> and \<open>Boolean(x)\<close>.\<close>

fun truthy :: "jsval \<Rightarrow> bool" where
  "truthy Undefined = False"
| "truthy Null = False"
| "truthy (JBool b) = b"
| "truthy (JNum NaN) = False"
| "truthy (JNum (Infinity s)) = True"
| "truthy (JNum (Finite q)) = (q \<noteq> 0)"
| "truthy (JStr s) = (s \<noteq> [])"
| "truthy (JArr xs) = True"
| "truthy (JObj kvs) = True"

fun nullish :: "jsval \<Rightarrow> bool" where
  "nullish Undefined = True"
| "nullish Null = True"
| "nullish v = False"

fun isArray :: "jsval \<Rightarrow> bool" where
  "isArray (JArr xs) = True"
| "isArray v = False"

text \<open>
  Property read \<open>v.k\<close> for the data property names this code reads (\<open>error\<close>,
  \<open>result\<close>, \<open>message\<close>, \<open>address\<close>, \<open>transactionHash\<close>): a \<open>TypeError\<close> on
  \<open>null\<close> and \<open>undefined\<close>, the own property of an object, and \<open>undefined\<close>
  otherwise (no prototype has these names). An object holds each key once.
\<close>

fun get_prop :: "jsval \<Rightarrow> string \<Rightarrow> js_exn + jsval" where
  "get_prop Undefined k =
     Inl (TypeError (''Cannot read properties of undefined (reading '' @ [CHR 0x27] @ k
            @ [CHR 0x27] @ '')''))"
| "get_prop Null k =
     Inl (TypeError (''Cannot read properties of null (reading '' @ [CHR 0x27] @ k
            @ [CHR 0x27] @ '')''))"
| "get_prop (JObj kvs) k = Inr (case map_of kvs k of None \<Rightarrow> Undefined | Some v \<Rightarrow> v)"
| "get_prop v k = Inr Undefined"

text \<open>Optional chaining \<open>v?.k\<close>.\<close>

definition opt_prop :: "jsval \<Rightarrow> string \<Rightarrow> jsval" where
  "opt_prop v k = (case get_prop v k of Inl e \<Rightarrow> Undefined | Inr x \<Rightarrow> x)"

text \<open>
  \<open>ToString\<close>, as applied by a template literal. An object parsed from JSON has no
  callable property of its own, so one with a key \<open>toString\<close> cannot be converted;
  an array is joined with commas, \<open>null\<close> and \<open>undefined\<close> elements giving the empty
  string.
\<close>

fun ToString :: "platform \<Rightarrow> jsval \<Rightarrow> js_exn + string"
  and join_elements :: "platform \<Rightarrow> jsval list \<Rightarrow> js_exn + string" where
  "ToString P Undefined = Inr ''undefined''"
| "ToString P Null = Inr ''null''"
| "ToString P (JBool b) = Inr (if b then ''true'' else ''false'')"
| "ToString P (JNum n) = Inr (Number_toString P n 10)"
| "ToString P (JStr s) = Inr s"
| "ToString P (JArr xs) = join_elements P xs"
| "ToString P (JObj kvs) =
     (if ''toString'' \<in> fst ` set kvs
      then Inl (TypeError ''Cannot convert object to primitive value'')
      else Inr ''[object Object]'')"
| "join_elements P [] = Inr []"
| "join_elements P (x # xs) =
     (case (if nullish x then Inr [] else ToString P x) of
        Inl e \<Rightarrow> Inl e
      | Inr s \<Rightarrow>
          (if xs = [] then Inr s
           else (case join_elements P xs of
                   Inl e \<Rightarrow> Inl e
                 | Inr t \<Rightarrow> Inr (s @ '','' @ t))))"

text \<open>
  The method call \<open>v.toString()\<close> on a value that is neither \<open>null\<close> nor
  \<open>undefined\<close>: an own, non-callable \<open>toString\<close> makes the call itself fail.
\<close>

fun call_toString :: "platform \<Rightarrow> jsval \<Rightarrow> js_exn + string" where
  "call_toString P (JObj kvs) =
     (if ''toString'' \<in> fst ` set kvs
      then Inl (TypeError ''result?.toString is not a function'')
      else Inr ''[object Object]'')"
| "call_toString P v = ToString P v"

section \<open>Strings and numerals\<close>

definition digit_char :: "nat \<Rightarrow> char" where
  "digit_char d = (if d < 16 then ''0123456789abcdef'' ! d else CHR ''?'')"

text \<open>\<open>n.toString(radix)\<close> for a non-negative integer \<open>n\<close> that a double holds exactly.\<close>

function nat_toString :: "nat \<Rightarrow> nat \<Rightarrow> string" where
  "nat_toString radix n =
     (if radix < 2 \<or> n < radix then [digit_char n]
      else nat_toString radix (n div radix) @ [digit_char (n mod radix)])"
  by pat_completeness auto
termination
  by (relation "measure (\<lambda>(radix, n). n)") auto

declare nat_toString.simps [simp del]

definition padStart :: "nat \<Rightarrow> char \<Rightarrow> string \<Rightarrow> string" where
  "padStart n c s = replicate (n - length s) c @ s"

text \<open>\<open>s.substring(start, end)\<close> for non-negative arguments.\<close>

definition substring :: "nat \<Rightarrow> nat \<Rightarrow> string \<Rightarrow> string" where
  "substring start fin s =
     (let a = min start (length s); b = min fin (length s)
      in take (max a b - min a b) (drop (min a b) s))"

text \<open>\<open>Array.from(bytes, b => b.toString(16).padStart(2, '0')).join('')\<close>.\<close>

definition hex_bytes :: "8 word list \<Rightarrow> string" where
  "hex_bytes bs = concat (map (\<lambda>b. padStart 2 (CHR ''0'') (nat_toString 16 (unat b))) bs)"

section \<open>The environment: network and randomness\<close>

text \<open>
  A \<open>fetch\<close> either rejects or resolves to a response; \<open>response.json()\<close> either
  rejects (the body is not JSON) or resolves to the parsed value.
\<close>

record response =
  ok :: bool
  status :: nat
  statusText :: string
  json :: "js_exn + jsval"

datatype fetch_outcome = Rejects js_exn | Resolves response

text \<open>A request: the URL and the \<open>init\<close> object; \<open>body\<close> is the value given to \<open>JSON.stringify\<close>.\<close>

record request =
  url :: string
  http_method :: string
  headers :: "(string \<times> string) list"
  body :: "jsval option"

text \<open>
  The world a call runs in. \<open>net k\<close> is what the \<open>k\<close>-th \<open>fetch\<close> of the session
  meets and \<open>sent\<close> lists the requests made so far; \<open>random_bytes\<close> is the stream
  \<open>crypto.getRandomValues\<close> reads and \<open>math_random\<close> the one \<open>Math.random\<close> reads,
  each with the number of values already drawn.
\<close>

record world =
  net :: "nat \<Rightarrow> fetch_outcome"
  sent :: "request list"
  random_bytes :: "nat \<Rightarrow> 8 word"
  bytes_drawn :: nat
  math_random :: "nat \<Rightarrow> jsnum"
  randoms_drawn :: nat

text \<open>
  A computation over a state \<open>'s\<close>: it changes the state and returns or throws. An
  \<open>await\<close> of a promise that rejects is a throw at that point.
\<close>

type_synonym ('a, 's) prog = "'s \<Rightarrow> (js_exn + 'a) \<times> 's"

definition return_js :: "'a \<Rightarrow> ('a, 's) prog" where
  "return_js x w = (Inr x, w)"

definition throw_js :: "js_exn \<Rightarrow> ('a, 's) prog" where
  "throw_js e w = (Inl e, w)"

definition lift_js :: "js_exn + 'a \<Rightarrow> ('a, 's) prog" where
  "lift_js r w = (r, w)"

definition bind_js :: "('a, 's) prog \<Rightarrow> ('a \<Rightarrow> ('b, 's) prog) \<Rightarrow> ('b, 's) prog" where
  "bind_js m f w = (case m w of (Inl e, w') \<Rightarrow> (Inl e, w') | (Inr x, w') \<Rightarrow> f x w')"

definition try_catch :: "('a, 's) prog \<Rightarrow> (js_exn \<Rightarrow> ('a, 's) prog) \<Rightarrow> ('a, 's) prog" where
  "try_catch m h w = (case m w of (Inl e, w') \<Rightarrow> h e w' | (Inr x, w') \<Rightarrow> (Inr x, w'))"

definition fetch :: "request \<Rightarrow> (response, world) prog" where
  "fetch req w =
     (case net w (length (sent w)) of
        Rejects e \<Rightarrow> (Inl e, w\<lparr>sent := sent w @ [req]\<rparr>)
      | Resolves r \<Rightarrow> (Inr r, w\<lparr>sent := sent w @ [req]\<rparr>))"

definition Math_random :: "(jsnum, world) prog" where
  "Math_random w = (Inr (math_random w (randoms_drawn w)), w\<lparr>randoms_drawn := randoms_drawn w + 1\<rparr>)"

definition getRandomValues :: "nat \<Rightarrow> (8 word list, world) prog" where
  "getRandomValues n w =
     (Inr (map (random_bytes w) [bytes_drawn w ..< bytes_drawn w + n]),
      w\<lparr>bytes_drawn := bytes_drawn w + n\<rparr>)"

section \<open>AztecRPCClient\<close>

record AztecRPCClient =
  rpcUrl :: string

definition new_AztecRPCClient :: "string \<Rightarrow> AztecRPCClient" where
  "new_AztecRPCClient u = \<lparr>rpcUrl = u @ ''/jsonrpc''\<rparr>"

definition json_headers :: "(string \<times> string) list" where
  "json_headers = [(''Content-Type'', ''application/json'')]"

definition simulateTransaction ::
  "platform \<Rightarrow> AztecRPCClient \<Rightarrow> string \<Rightarrow> string \<Rightarrow> jsval list \<Rightarrow> (jsval, world) prog" where
  "simulateTransaction P this contractAddress functionName params =
     try_catch
       (bind_js (fetch \<lparr>url = rpcUrl this, http_method = ''POST'', headers = json_headers,
                   body = Some (JObj [
                     (''jsonrpc'', JStr ''2.0''),
                     (''method'', JStr ''aztec_simulateTransaction''),
                     (''params'', JObj [
                        (''contractAddress'', JStr contractAddress),
                        (''functionName'', JStr functionName),
                        (''args'', JArr params)]),
                     (''id'', JNum (Finite 1))])\<rparr>)
        (\<lambda>response. bind_js (lift_js (json response))
        (\<lambda>result. bind_js (lift_js (get_prop result ''error''))
        (\<lambda>err.
           if truthy err then
             bind_js (lift_js (get_prop err ''message''))
             (\<lambda>message. bind_js (lift_js (ToString P message))
             (\<lambda>s. throw_js (Error (''Simulation error: '' @ s))))
           else lift_js (get_prop result ''result'')))))
       (\<lambda>error. throw_js error)"

definition getBlockNumber :: "AztecRPCClient \<Rightarrow> (jsval, world) prog" where
  "getBlockNumber this =
     try_catch
       (bind_js (fetch \<lparr>url = rpcUrl this, http_method = ''POST'', headers = json_headers,
                   body = Some (JObj [
                     (''jsonrpc'', JStr ''2.0''),
                     (''method'', JStr ''aztec_getBlockNumber''),
                     (''params'', JArr []),
                     (''id'', JNum (Finite 1))])\<rparr>)
        (\<lambda>response. bind_js (lift_js (json response))
        (\<lambda>result. bind_js (lift_js (get_prop result ''result''))
        (\<lambda>r. return_js (if truthy r then r else JNum (Finite 0))))))
       (\<lambda>error. return_js (JNum (Finite 0)))"

text \<open>
  \<open>sendTransaction\<close> logs its arguments and builds its result from two draws of
  \<open>Math.random\<close>; the object literal is evaluated in source order.
\<close>

definition sendTransaction ::
  "platform \<Rightarrow> AztecRPCClient \<Rightarrow> string \<Rightarrow> string \<Rightarrow> jsval list \<Rightarrow> string option
     \<Rightarrow> (jsval, world) prog" where
  "sendTransaction P this contractAddress functionName params from =
     try_catch
       (bind_js Math_random
        (\<lambda>r1. bind_js Math_random
        (\<lambda>r2. return_js (JObj [
           (''transactionHash'', JStr (''0x'' @ substring 2 66 (Number_toString P r1 16))),
           (''status'', JStr ''success''),
           (''blockNumber'', JNum (Math_floor P (num_times P r2 (Finite 1000000)))),
           (''gasUsed'', JStr ''21000'')]))))
       (\<lambda>error. throw_js error)"

text \<open>
  The rolling hash. \<open>hash\<close> is always a 32-bit integer: \<open>hash << 5\<close> wraps,
  \<open>(hash << 5) - hash + char\<close> is exact in a double, and \<open>hash & hash\<close> wraps again.
\<close>

definition ToInt32 :: "int \<Rightarrow> int" where
  "ToInt32 x = (x + 2 ^ 31) mod 2 ^ 32 - 2 ^ 31"

fun hash_loop :: "string \<Rightarrow> int \<Rightarrow> int" where
  "hash_loop [] hash = hash"
| "hash_loop (c # cs) hash =
     hash_loop cs (ToInt32 (ToInt32 (hash * 32) - hash + int (of_char c)))"

definition hashString :: "AztecRPCClient \<Rightarrow> string \<Rightarrow> (string, world) prog" where
  "hashString this input =
     return_js (''0x'' @ padStart 64 (CHR ''0'') (nat_toString 16 (nat \<bar>hash_loop input 0\<bar>)))"

section \<open>AztecContractClient\<close>

record AztecContractClient =
  rpc :: AztecRPCClient
  profileRegistryAddress :: string
  privateSocialAddress :: string

definition new_AztecContractClient :: "string \<Rightarrow> string \<Rightarrow> string \<Rightarrow> AztecContractClient" where
  "new_AztecContractClient u registry social =
     \<lparr>rpc = new_AztecRPCClient u, profileRegistryAddress = registry,
      privateSocialAddress = social\<rparr>"

definition hasProfile :: "platform \<Rightarrow> AztecContractClient \<Rightarrow> string \<Rightarrow> (bool, world) prog" where
  "hasProfile P this user =
     try_catch
       (bind_js (simulateTransaction P (rpc this) (profileRegistryAddress this)
                   ''has_profile'' [JStr user])
        (\<lambda>result. return_js (truthy result)))
       (\<lambda>error. return_js False)"

definition getProfileId :: "platform \<Rightarrow> AztecContractClient \<Rightarrow> string \<Rightarrow> (string, world) prog" where
  "getProfileId P this user =
     try_catch
       (bind_js (simulateTransaction P (rpc this) (profileRegistryAddress this)
                   ''get_profile_id'' [JStr user])
        (\<lambda>result.
           if nullish result then return_js ''0''
           else bind_js (lift_js (call_toString P result))
                (\<lambda>s. return_js (if s \<noteq> [] then s else ''0''))))
       (\<lambda>error. return_js ''0'')"

definition getTotalProfiles :: "platform \<Rightarrow> AztecContractClient \<Rightarrow> (jsnum, world) prog" where
  "getTotalProfiles P this =
     try_catch
       (bind_js (simulateTransaction P (rpc this) (profileRegistryAddress this)
                   ''get_total_profiles'' [])
        (\<lambda>result. bind_js (lift_js (ToString P result))
        (\<lambda>s. return_js (if truthy (JNum (parseInt P s)) then parseInt P s else Finite 0))))
       (\<lambda>error. return_js (Finite 0))"

definition six_false :: jsval where
  "six_false = JArr [JBool False, JBool False, JBool False, JBool False, JBool False, JBool False]"

definition getProfileVerifications ::
  "platform \<Rightarrow> AztecContractClient \<Rightarrow> string \<Rightarrow> (jsval, world) prog" where
  "getProfileVerifications P this profileId =
     try_catch
       (bind_js (simulateTransaction P (rpc this) (privateSocialAddress this)
                   ''get_profile_verifications'' [JStr profileId])
        (\<lambda>result. return_js (if isArray result then result else six_false)))
       (\<lambda>error. return_js six_false)"

section \<open>Account results\<close>

text \<open>
  \<open>SponsoredAccountResult\<close>, \<open>AAAccountResult\<close> and \<open>AzGuardConnectionResult\<close>
  are the same interface: \<open>success\<close> and four optional fields. \<open>address\<close> is
  declared a string but is assigned untyped values, so it is kept as a value.
\<close>

record 'acc AccountResult =
  success :: bool
  address :: "jsval option"
  account :: "'acc option"
  provider :: "string option"
  error :: "string option"

definition failure :: "string \<Rightarrow> 'acc AccountResult" where
  "failure msg = \<lparr>success = False, address = None, account = None, provider = None,
                  error = Some msg\<rparr>"

section \<open>AztecSponsoredWallet\<close>

text \<open>
  The fields of the wallet object. \<open>'k\<close> stands for \<open>CryptoKeyPair\<close>; the account
  object's closures (\<open>getAddress\<close>, \<open>signMessage\<close>, \<open>sendTransaction\<close>) are left out.
  \<open>None\<close> is \<open>null\<close>.
\<close>

record 'k SponsoredAccount =
  sponsored_address :: string
  sponsored_keyPair :: "'k option"
  isSponsored :: bool
  networkRegistered :: bool

record 'k AztecSponsoredWallet =
  SW_account :: "'k SponsoredAccount option"
  SW_keyPair :: "'k option"

definition SW_getCurrentAccount :: "'k AztecSponsoredWallet \<Rightarrow> 'k SponsoredAccount option" where
  "SW_getCurrentAccount this = SW_account this"

definition SW_disconnect :: "'k AztecSponsoredWallet \<Rightarrow> 'k AztecSponsoredWallet" where
  "SW_disconnect this = this\<lparr>SW_account := None, SW_keyPair := None\<rparr>"

section \<open>AztecAccountAbstraction\<close>

definition AA_pxeUrl :: string where
  "AA_pxeUrl = ''https://aztec-alpha-testnet-fullnode.zkv.xyz''"

definition AA_sponsorAddress :: string where
  "AA_sponsorAddress = ''0x1260a43ecf03e985727affbbe3e483e60b836ea821b6305bea1c53398b986047''"

text \<open>The fields \<open>account\<close> and \<open>pxe\<close>, both typed \<open>any\<close> and initially \<open>null\<close>.\<close>

record AztecAccountAbstraction =
  AA_account :: jsval
  AA_pxe :: jsval

definition new_AztecAccountAbstraction :: AztecAccountAbstraction where
  "new_AztecAccountAbstraction = \<lparr>AA_account = Null, AA_pxe = Null\<rparr>"

definition generateAAAddress :: "(string, world) prog" where
  "generateAAAddress =
     bind_js (getRandomValues 32) (\<lambda>bytes. return_js (''0x'' @ hex_bytes bytes))"

definition AA_hashString :: "platform \<Rightarrow> string \<Rightarrow> (string, world) prog" where
  "AA_hashString P input =
     bind_js (lift_js (digest_SHA256 P (TextEncoder_encode P input)))
     (\<lambda>hashBuffer. return_js (''0x'' @ hex_bytes hashBuffer))"

definition statusPayload :: jsval where
  "statusPayload = JObj [
     (''jsonrpc'', JStr ''2.0''),
     (''method'', JStr ''pxe_getNodeInfo''),
     (''params'', JArr []),
     (''id'', JNum (Finite 1))]"

definition createAccountPayload :: "string \<Rightarrow> string \<Rightarrow> jsnum \<Rightarrow> jsval" where
  "createAccountPayload aaAddress argsHash ident = JObj [
     (''jsonrpc'', JStr ''2.0''),
     (''method'', JStr ''aztec_sendTransaction''),
     (''params'', JArr [JObj [
        (''origin'', JStr aaAddress),
        (''functionData'', JObj [
           (''contractAddress'', JStr aaAddress),
           (''entrypoint'', JStr ''0x00000001''),
           (''argsHash'', JStr argsHash)]),
        (''args'', JArr [JObj [(''type'', JStr ''Field''), (''value'', JStr aaAddress)]]),
        (''fee'', JObj [(''assetAddress'', JStr AA_sponsorAddress)]),
        (''txContext'', JObj [(''nonce'', JNum (Finite 0)), (''expiry'', JNum (Finite 0))]),
        (''proof'', JStr ''0x''),
        (''signature'', JStr ''0x'')]]),
     (''id'', JNum ident)]"

definition AA_request :: "jsval \<Rightarrow> request" where
  "AA_request payload =
     \<lparr>url = AA_pxeUrl, http_method = ''POST'', headers = json_headers, body = Some payload\<rparr>"

definition new_account :: "jsval \<Rightarrow> jsval \<Rightarrow> jsval" where
  "new_account addr transactionHash = JObj [
     (''address'', addr),
     (''type'', JStr ''account_abstraction''),
     (''isGasless'', JBool True),
     (''sponsor'', JStr AA_sponsorAddress),
     (''transactionHash'', transactionHash)]"

text \<open>
  \<open>createAAAccount\<close> returns its result together with the object as the call leaves
  it; \<open>this.account\<close> is assigned only at the end of the \<open>try\<close> block. The template
  literal with the transaction hash is evaluated for logging whenever the hash is truthy.
\<close>

definition createAAAccount_try ::
  "platform \<Rightarrow> AztecAccountAbstraction
     \<Rightarrow> (jsval AccountResult \<times> AztecAccountAbstraction, world) prog" where
  "createAAAccount_try P this =
     bind_js (fetch (AA_request statusPayload))
     (\<lambda>statusResponse.
        if \<not> ok statusResponse then
          throw_js (Error (''PXE connection failed: HTTP '' @ nat_toString 10 (status statusResponse)))
        else
     bind_js (lift_js (json statusResponse))
     (\<lambda>statusResult. bind_js generateAAAddress
     (\<lambda>aaAddress. bind_js (AA_hashString P aaAddress)
     (\<lambda>argsHash. bind_js Math_random
     (\<lambda>r. bind_js (fetch (AA_request
               (createAccountPayload aaAddress argsHash (Math_floor P (num_times P r (Finite 1000))))))
     (\<lambda>createResponse.
        if \<not> ok createResponse then
          throw_js (Error (''Account creation failed: HTTP '' @ nat_toString 10 (status createResponse)))
        else
     bind_js (lift_js (json createResponse))
     (\<lambda>createResult. bind_js (lift_js (get_prop createResult ''result''))
     (\<lambda>res. bind_js (if truthy (opt_prop res ''address'') then return_js (opt_prop res ''address'')
                     else bind_js generateAAAddress (\<lambda>generated. return_js (JStr generated)))
     (\<lambda>addr. bind_js (lift_js (get_prop createResult ''result''))
     (\<lambda>res'. bind_js (if truthy (opt_prop res' ''transactionHash'')
                      then bind_js (lift_js (ToString P (opt_prop res' ''transactionHash'')))
                           (\<lambda>explorer. return_js ())
                      else return_js ())
     (\<lambda>u. return_js
        (\<lparr>success = True, address = Some addr,
          account = Some (new_account addr (opt_prop res' ''transactionHash'')),
          provider = Some ''account_abstraction'', error = None\<rparr>,
         this\<lparr>AA_account := new_account addr (opt_prop res' ''transactionHash'')\<rparr>))))))))))))"

definition createAAAccount ::
  "platform \<Rightarrow> AztecAccountAbstraction
     \<Rightarrow> (jsval AccountResult \<times> AztecAccountAbstraction, world) prog" where
  "createAAAccount P this =
     try_catch (createAAAccount_try P this)
       (\<lambda>error. return_js
          (failure (if instanceof_Error error then exn_message error
                    else ''Unknown error occurred''), this))"

definition AA_getCurrentAccount :: "AztecAccountAbstraction \<Rightarrow> jsval" where
  "AA_getCurrentAccount this = AA_account this"

definition AA_disconnect :: "AztecAccountAbstraction \<Rightarrow> AztecAccountAbstraction" where
  "AA_disconnect this = this\<lparr>AA_account := Null, AA_pxe := Null\<rparr>"

section \<open>AzGuard wallet client\<close>

text \<open>
  The wallet SDK and the browser window are outside the module. A client object is
  described by what the module observes of it: its \<open>connected\<close> flag, whether
  \<open>connect\<close> rejects, and the value of \<open>accounts\<close> when it is read (\<open>None\<close> for
  \<open>null\<close> or \<open>undefined\<close>).
\<close>

record AzguardClient =
  connected :: bool
  connect_outcome :: "js_exn option"
  accounts :: "jsval list option"

record wallet_env =
  isAzguardInstalled :: "js_exn + bool"
  window_open :: "js_exn option"
  AzguardClient_create :: "js_exn + AzguardClient option"

text \<open>The module's variable \<open>azguardInstance\<close>, and the pages opened so far.\<close>

record module_state =
  azguardInstance :: "AzguardClient option"
  opened :: "string list"

text \<open>\<open>createAccountWrapper\<close>; the closures \<open>getAddress\<close> and \<open>signMessage\<close> are left out.\<close>

record AccountWrapper =
  wrapper_address :: jsval
  fullAccount :: jsval
  azguardClient :: AzguardClient

definition createAccountWrapper :: "jsval \<Rightarrow> jsval \<Rightarrow> AzguardClient \<Rightarrow> AccountWrapper" where
  "createAccountWrapper addr full client =
     \<lparr>wrapper_address = addr, fullAccount = full, azguardClient = client\<rparr>"

text \<open>\<open>s.split(sep)\<close> for a separator of one character.\<close>

fun split_on :: "char \<Rightarrow> string \<Rightarrow> string list" where
  "split_on sep [] = [[]]"
| "split_on sep (c # cs) =
     (if c = sep then [] # split_on sep cs
      else (case split_on sep cs of [] \<Rightarrow> [[c]] | p # ps \<Rightarrow> (c # p) # ps))"

text \<open>The address taken from the first account (lines 83 to 90 of the module).\<close>

definition parse_address :: "jsval \<Rightarrow> jsval" where
  "parse_address full =
     (case full of
        JStr s \<Rightarrow>
          (if CHR '':'' \<in> set s then
             (let parts = split_on (CHR '':'') s
              in if parts = [] then Undefined else JStr (last parts))
           else full)
      | _ \<Rightarrow> full)"

definition install_page :: string where
  "install_page =
     ''https://chrome.google.com/webstore/detail/azguard-wallet/pliilpflcmabdiapdeihifihkbdfnbmn''"

definition open_window :: "wallet_env \<Rightarrow> string \<Rightarrow> (unit, module_state) prog" where
  "open_window env page st =
     (case window_open env of
        Some e \<Rightarrow> (Inl e, st)
      | None \<Rightarrow> (Inr (), st\<lparr>opened := opened st @ [page]\<rparr>))"

definition set_azguardInstance :: "AzguardClient option \<Rightarrow> (unit, module_state) prog" where
  "set_azguardInstance c st = (Inr (), st\<lparr>azguardInstance := c\<rparr>)"

text \<open>The \<open>try\<close> block of \<open>connectAzGuard\<close>.\<close>

definition connectAzGuard_try ::
  "wallet_env \<Rightarrow> (AccountWrapper AccountResult, module_state) prog" where
  "connectAzGuard_try env =
     bind_js (lift_js (isAzguardInstalled env))
     (\<lambda>isInstalled.
        if \<not> isInstalled then
          bind_js (open_window env install_page)
          (\<lambda>u. return_js (failure ''AzGuard wallet not installed''))
        else
          bind_js (lift_js (AzguardClient_create env))
          (\<lambda>created.
             case created of
               None \<Rightarrow> throw_js (Error ''Failed to initialize AzGuard client'')
             | Some azguard \<Rightarrow>
                 bind_js (if \<not> connected azguard then
                            (case connect_outcome azguard of
                               Some e \<Rightarrow> throw_js e
                             | None \<Rightarrow> return_js ())
                          else return_js ())
                 (\<lambda>u. case accounts azguard of
                         None \<Rightarrow> throw_js (Error ''No account returned from AzGuard'')
                       | Some [] \<Rightarrow> throw_js (Error ''No account returned from AzGuard'')
                       | Some (full # others) \<Rightarrow>
                           bind_js (set_azguardInstance (Some azguard))
                           (\<lambda>u'. return_js
                              \<lparr>success = True, address = Some (parse_address full),
                               account = Some (createAccountWrapper (parse_address full) full azguard),
                               provider = Some ''azguard'', error = None\<rparr>))))"

definition connectAzGuard ::
  "wallet_env \<Rightarrow> (AccountWrapper AccountResult, module_state) prog" where
  "connectAzGuard env =
     try_catch (connectAzGuard_try env)
       (\<lambda>err. bind_js (set_azguardInstance None)
          (\<lambda>u. return_js (failure (if instanceof_Error err then exn_message err
                                    else ''Failed to connect to AzGuard''))))"

definition getAzGuardInstance :: "module_state \<Rightarrow> AzguardClient option" where
  "getAzGuardInstance st = azguardInstance st"

section \<open>Sample environments\<close>

text \<open>A platform, worlds and wallet environments on which the theorems are instantiated.\<close>

definition sample_platform :: platform where
  "sample_platform =
     \<lparr>Number_toString = (\<lambda>n radix. ''0.8''), parseInt = (\<lambda>s. NaN), Math_floor = (\<lambda>n. n),
      num_times = (\<lambda>a b. a), TextEncoder_encode = map (\<lambda>c. of_nat (of_char c)),
      digest_SHA256 = (\<lambda>bs. Inr (replicate 32 0))\<rparr>"

definition sample_world :: "fetch_outcome list \<Rightarrow> world" where
  "sample_world outcomes =
     \<lparr>net = (\<lambda>k. if k < length outcomes then outcomes ! k
                  else Rejects (TypeError ''Failed to fetch'')),
      sent = [],
      random_bytes = (\<lambda>k. of_nat k),
      bytes_drawn = 0,
      math_random = (\<lambda>k. Finite (1 / 2)),
      randoms_drawn = 0\<rparr>"

definition json_response :: "jsval \<Rightarrow> fetch_outcome" where
  "json_response v = Resolves \<lparr>ok = True, status = 200, statusText = ''OK'', json = Inr v\<rparr>"

definition sample_client :: AztecContractClient where
  "sample_client = new_AztecContractClient ''https://aztec-alpha-testnet-fullnode.zkv.xyz''
     ''0x2ec8bbff14a6b5347b3db46dcd1544abf99e9546839a740b9e37b648bc5e176f''
     ''0x227e0e81083bfed7a1e0458b89645f49b510a5fe59f8766581cbc3277f91b264''"

definition sample_wallet :: "jsval list \<Rightarrow> AzguardClient" where
  "sample_wallet accs = \<lparr>connected = False, connect_outcome = None, accounts = Some accs\<rparr>"

definition wallet_installed :: "AzguardClient \<Rightarrow> wallet_env" where
  "wallet_installed c =
     \<lparr>isAzguardInstalled = Inr True, window_open = None, AzguardClient_create = Inr (Some c)\<rparr>"

definition wallet_absent :: wallet_env where
  "wallet_absent =
     \<lparr>isAzguardInstalled = Inr False, window_open = None,
      AzguardClient_create = Inl (Error ''AzGuard wallet is not installed'')\<rparr>"

definition fresh_module :: module_state where
  "fresh_module = \<lparr>azguardInstance = None, opened = []\<rparr>"

definition wallet_rejecting :: wallet_env where
  "wallet_rejecting =
     \<lparr>isAzguardInstalled = Inr True, window_open = None,
      AzguardClient_create = Inl (Error ''User rejected the request'')\<rparr>"

definition stale_module :: module_state where
  "stale_module =
     \<lparr>azguardInstance = Some (sample_wallet [JStr ''aztec:11155111:0xABC'']), opened = []\<rparr>"

definition error_body :: jsval where
  "error_body = JObj [(''error'', JObj [(''message'', JStr ''x'')])]"

definition null_error_body :: jsval where
  "null_error_body = JObj [(''error'', Null), (''result'', JNum (Finite 5))]"

definition bad_json_response :: fetch_outcome where
  "bad_json_response =
     Resolves \<lparr>ok = True, status = 200, statusText = ''OK'',
               json = Inl (Error ''Unexpected token < in JSON at position 0'')\<rparr>"

definition sample_aa_world :: world where
  "sample_aa_world = sample_world [json_response (JObj []),
     json_response (JObj [(''result'', JObj [(''transactionHash'', JStr ''0xabc'')])])]"

section \<open>Auxiliary facts\<close>

lemmas prog_defs = return_js_def throw_js_def lift_js_def bind_js_def try_catch_def

lemma split_on_no_sep: "sep \<notin> set a \<Longrightarrow> split_on sep a = [a]"
  by (induction a) auto

lemma split_on_nonempty: "split_on sep s \<noteq> []"
  by (induction s) (auto split: list.splits)

lemma length_split_on: "length (split_on sep s) = Suc (length (filter (\<lambda>c. c = sep) s))"
  by (induction s) (auto split: list.splits)

lemma last_split_on_append:
  "sep \<notin> set a \<Longrightarrow> last (split_on sep (pre @ sep # a)) = a"
proof (induction pre)
  case Nil
  then show ?case by (simp add: split_on_no_sep)
next
  case (Cons c pre)
  have "length (split_on sep (pre @ sep # a)) \<ge> 2"
    by (simp add: length_split_on)
  then obtain p q qs where "split_on sep (pre @ sep # a) = p # q # qs"
    by (cases "split_on sep (pre @ sep # a)"; cases "tl (split_on sep (pre @ sep # a))") auto
  with Cons show ?case by auto
qed

lemma parse_address_colon:
  "CHR '':'' \<notin> set a \<Longrightarrow> parse_address (JStr (pre @ CHR '':'' # a)) = JStr a"
  by (simp add: parse_address_def Let_def split_on_nonempty last_split_on_append)

lemma parse_address_plain:
  "CHR '':'' \<notin> set s \<Longrightarrow> parse_address (JStr s) = JStr s"
  by (simp add: parse_address_def)

lemma simulate_fetch_rejects:
  "net w (length (sent w)) = Rejects e \<Longrightarrow>
   fst (simulateTransaction P c a f ps w) = Inl e"
  by (simp add: simulateTransaction_def prog_defs fetch_def)

lemma digit_char_inj: "a < 16 \<Longrightarrow> b < 16 \<Longrightarrow> digit_char a = digit_char b \<Longrightarrow> a = b"
proof -
  assume a: "a < 16" and b: "b < 16" and eq: "digit_char a = digit_char b"
  have d: "distinct ''0123456789abcdef''" by simp
  have "''0123456789abcdef'' ! a = ''0123456789abcdef'' ! b"
    using a b eq by (simp add: digit_char_def)
  then show "a = b"
    using nth_eq_iff_index_eq [OF d, of a b] a b by simp
qed

lemma byte_hex:
  fixes b :: "8 word"
  shows "padStart 2 (CHR ''0'') (nat_toString 16 (unat b))
           = [digit_char (unat b div 16), digit_char (unat b mod 16)]"
proof -
  have lt: "unat b < 256" using unsigned_less [of b] by simp
  show ?thesis
  proof (cases "unat b < 16")
    case True
    then show ?thesis by (simp add: padStart_def digit_char_def nat_toString.simps [of 16 "unat b"])
  next
    case False
    with lt have "unat b div 16 < 16" by simp
    with False show ?thesis
      by (simp add: padStart_def nat_toString.simps [of 16 "unat b"]
            nat_toString.simps [of 16 "unat b div 16"])
  qed
qed

lemma hex_bytes_Cons:
  "hex_bytes (b # bs) = digit_char (unat b div 16) # digit_char (unat b mod 16) # hex_bytes bs"
  by (simp add: hex_bytes_def byte_hex)

lemma hex_bytes_Nil: "hex_bytes [] = []"
  by (simp add: hex_bytes_def)


lemma byte_digits_inj:
  fixes a b :: "8 word"
  assumes "digit_char (unat a div 16) = digit_char (unat b div 16)"
    and "digit_char (unat a mod 16) = digit_char (unat b mod 16)"
  shows "a = b"
proof -
  have la: "unat a < 256" and lb: "unat b < 256"
    using unsigned_less [of a] unsigned_less [of b] by simp_all
  have "unat a div 16 < 16" using la by arith
  moreover have "unat b div 16 < 16" using lb by arith
  ultimately have d: "unat a div 16 = unat b div 16" using assms(1) by (rule digit_char_inj)
  have "unat a mod 16 < 16" "unat b mod 16 < 16" by arith+
  then have m: "unat a mod 16 = unat b mod 16" using assms(2) by (rule digit_char_inj)
  have "unat a = unat a div 16 * 16 + unat a mod 16"
    by (rule div_mult_mod_eq [symmetric])
  also have "\<dots> = unat b div 16 * 16 + unat b mod 16"
    by (simp only: d m)
  also have "\<dots> = unat b"
    by (rule div_mult_mod_eq)
  finally show ?thesis by (rule word_unat_eq_iff [THEN iffD2])
qed

lemma hex_bytes_inj: "hex_bytes xs = hex_bytes ys \<Longrightarrow> xs = ys"
proof (induction xs arbitrary: ys)
  case Nil
  then show ?case by (cases ys) (simp_all add: hex_bytes_Nil hex_bytes_Cons)
next
  case (Cons x xs)
  show ?case
  proof (cases ys)
    case Nil
    with Cons.prems show ?thesis by (simp add: hex_bytes_Nil hex_bytes_Cons)
  next
    case (Cons y ys')
    with Cons.prems have "x = y" "hex_bytes xs = hex_bytes ys'"
      by (auto simp add: hex_bytes_Cons intro: byte_digits_inj)
    with Cons.IH Cons show ?thesis by simp
  qed
qed


lemma get_prop_opt_prop: "\<not> nullish v \<Longrightarrow> get_prop v k = Inr (opt_prop v k)"
  by (cases v) (simp_all add: opt_prop_def)

lemma get_prop_Inr_opt_prop: "get_prop v k = Inr x \<Longrightarrow> opt_prop v k = x"
  by (simp add: opt_prop_def)

lemma truthy_not_nullish: "truthy v \<Longrightarrow> \<not> nullish v"
  by (cases v) simp_all

lemma getBlockNumber_returns: "\<exists>v. fst (getBlockNumber this w) = Inr v"
  by (auto simp add: getBlockNumber_def prog_defs fetch_def split: fetch_outcome.splits sum.splits prod.splits)

lemma sample_run:
  "\<exists>r this' w'. createAAAccount sample_platform new_AztecAccountAbstraction sample_aa_world
       = (Inr (r, this'), w') \<and> success r"
  by (simp add: createAAAccount_def createAAAccount_try_def prog_defs fetch_def
        generateAAAddress_def getRandomValues_def AA_hashString_def Math_random_def
        sample_aa_world_def sample_world_def json_response_def sample_platform_def opt_prop_def)

lemma connectAzGuard_not_installed_keeps_instance:
  "isAzguardInstalled env = Inr False \<Longrightarrow> window_open env = None \<Longrightarrow>
   azguardInstance (snd (connectAzGuard env st)) = azguardInstance st"
  by (simp add: connectAzGuard_def connectAzGuard_try_def prog_defs open_window_def)

lemma connectAzGuard_returns: "\<exists>r. fst (connectAzGuard env st) = Inr r"
  by (auto simp add: connectAzGuard_def prog_defs set_azguardInstance_def
        split: prod.splits sum.splits)

lemma createAAAccount_returns: "\<exists>r. fst (createAAAccount P this w) = Inr r"
  by (auto simp add: createAAAccount_def prog_defs split: prod.splits sum.splits)

lemma hashString_abc:
  "fst (hashString this ''abc'' w) = Inr (''0x'' @ replicate 59 (CHR ''0'') @ ''17862'')"
  by (simp add: hashString_def return_js_def ToInt32_def padStart_def digit_char_def
        nat_toString.simps)

section \<open>AztecRPCClient: errors of a simulation\<close>

text \<open>
  C1. When the response to \<open>simulateTransaction\<close> parses to an object whose \<open>error\<close>
  is an object with the message \<open>m\<close>, the call throws an \<open>Error\<close> whose message is
  \<open>Simulation error: \<close> followed by \<open>m\<close>, so it contains \<open>m\<close>; no value is returned.
\<close>

theorem simulateTransaction_throws_error_message:
  assumes "net w (length (sent w)) = Resolves resp"
    and "json resp = Inr (JObj kvs)"
    and "map_of kvs ''error'' = Some (JObj ekvs)"
    and "map_of ekvs ''message'' = Some (JStr m)"
  shows "fst (simulateTransaction P this contractAddress functionName params w)
           = Inl (Error (''Simulation error: '' @ m))"
  using assms by (simp add: simulateTransaction_def prog_defs fetch_def)

theorem simulateTransaction_throws_error_message_witness:
  "fst (simulateTransaction sample_platform (rpc sample_client) ''0x01'' ''has_profile''
          [JStr ''0x02''] (sample_world [json_response error_body]))
     = Inl (Error ''Simulation error: x'')"
proof -
  let ?w = "sample_world [json_response error_body]"
  let ?resp = "\<lparr>ok = True, status = 200, statusText = ''OK'', json = Inr error_body\<rparr>"
  have h1: "net ?w (length (sent ?w)) = Resolves ?resp"
    by (simp add: sample_world_def json_response_def)
  have h2: "json ?resp = Inr (JObj [(''error'', JObj [(''message'', JStr ''x'')])])"
    by (simp add: error_body_def)
  have h3: "map_of [(''error'', JObj [(''message'', JStr ''x'')])] ''error''
              = Some (JObj [(''message'', JStr ''x'')])"
    by simp
  have h4: "map_of [(''message'', JStr ''x'')] ''message'' = Some (JStr ''x'')"
    by simp
  show ?thesis
    using simulateTransaction_throws_error_message [OF h1 h2 h3 h4, of sample_platform
        "rpc sample_client" "''0x01''" "''has_profile''" "[JStr ''0x02'']"]
    by simp
qed

section \<open>AztecRPCClient: error and result of the request operations\<close>

text \<open>
  C6 does not hold as stated: for the response \<open>{error: {message: "x"}}\<close>,
  \<open>getBlockNumber\<close> returns \<open>0\<close> instead of throwing, and for
  \<open>{error: null, result: 5}\<close>, which contains an \<open>error\<close> field,
  \<open>simulateTransaction\<close> returns \<open>5\<close>.
\<close>

theorem rpc_operations_counterexample:
  "fst (getBlockNumber (rpc sample_client) (sample_world [json_response error_body]))
     = Inr (JNum (Finite 0))
   \<and> fst (simulateTransaction sample_platform (rpc sample_client) ''0x01'' ''has_profile''
            [JStr ''0x02''] (sample_world [json_response null_error_body]))
     = Inr (JNum (Finite 5))"
  by (simp add: getBlockNumber_def simulateTransaction_def prog_defs fetch_def sample_world_def
        json_response_def error_body_def null_error_body_def)

text \<open>
  C6, as the code has it. \<open>simulateTransaction\<close>, given a response that parses to a
  value other than \<open>null\<close>, throws when the value's \<open>error\<close> is truthy and
  otherwise returns its \<open>result\<close>. \<open>getBlockNumber\<close> never throws and never reads
  \<open>error\<close>: it returns \<open>result\<close> when that is truthy and \<open>0\<close> otherwise, and
  it returns \<open>0\<close> on every exception of its \<open>try\<close> block, which are a rejected
  \<open>fetch\<close>, a body that is not JSON and a body that parses to \<open>null\<close>.
\<close>

theorem rpc_operations_error_and_result:
  "(\<exists>v. fst (getBlockNumber this w) = Inr v)
   \<and> (net w (length (sent w)) = Resolves resp \<and> json resp = Inr result \<and> \<not> nullish result \<longrightarrow>
        (truthy (opt_prop result ''error'') \<longrightarrow>
           (\<exists>e. fst (simulateTransaction P this contractAddress functionName params w) = Inl e))
      \<and> (\<not> truthy (opt_prop result ''error'') \<longrightarrow>
           fst (simulateTransaction P this contractAddress functionName params w)
             = Inr (opt_prop result ''result''))
      \<and> fst (getBlockNumber this w)
           = Inr (if truthy (opt_prop result ''result'') then opt_prop result ''result''
                  else JNum (Finite 0)))
   \<and> (\<forall>e. net w (length (sent w)) = Rejects e \<longrightarrow>
          fst (getBlockNumber this w) = Inr (JNum (Finite 0)))
   \<and> (\<forall>e. net w (length (sent w)) = Resolves resp \<and> json resp = Inl e \<longrightarrow>
          fst (getBlockNumber this w) = Inr (JNum (Finite 0)))
   \<and> (net w (length (sent w)) = Resolves resp \<and> json resp = Inr result \<and> nullish result \<longrightarrow>
          fst (getBlockNumber this w) = Inr (JNum (Finite 0)))"
proof (intro conjI impI allI)
  show "\<exists>v. fst (getBlockNumber this w) = Inr v" by (rule getBlockNumber_returns)
next
  assume a: "net w (length (sent w)) = Resolves resp \<and> json resp = Inr result \<and> \<not> nullish result"
    and t: "truthy (opt_prop result ''error'')"
  from t have "\<not> nullish (opt_prop result ''error'')" by (rule truthy_not_nullish)
  with a t show "\<exists>e. fst (simulateTransaction P this contractAddress functionName params w) = Inl e"
    by (simp add: simulateTransaction_def prog_defs fetch_def get_prop_opt_prop split: sum.splits)
next
  assume a: "net w (length (sent w)) = Resolves resp \<and> json resp = Inr result \<and> \<not> nullish result"
    and t: "\<not> truthy (opt_prop result ''error'')"
  then show "fst (simulateTransaction P this contractAddress functionName params w)
             = Inr (opt_prop result ''result'')"
    by (simp add: simulateTransaction_def prog_defs fetch_def get_prop_opt_prop)
next
  assume a: "net w (length (sent w)) = Resolves resp \<and> json resp = Inr result \<and> \<not> nullish result"
  then show "fst (getBlockNumber this w)
           = Inr (if truthy (opt_prop result ''result'') then opt_prop result ''result''
                  else JNum (Finite 0))"
    by (simp add: getBlockNumber_def prog_defs fetch_def get_prop_opt_prop)
next
  fix e
  assume "net w (length (sent w)) = Rejects e"
  then show "fst (getBlockNumber this w) = Inr (JNum (Finite 0))"
    by (simp add: getBlockNumber_def prog_defs fetch_def)
next
  fix e
  assume "net w (length (sent w)) = Resolves resp \<and> json resp = Inl e"
  then show "fst (getBlockNumber this w) = Inr (JNum (Finite 0))"
    by (simp add: getBlockNumber_def prog_defs fetch_def)
next
  assume a: "net w (length (sent w)) = Resolves resp \<and> json resp = Inr result \<and> nullish result"
  then have "\<exists>e. get_prop result ''result'' = Inl e"
    by (cases result) simp_all
  with a show "fst (getBlockNumber this w) = Inr (JNum (Finite 0))"
    by (auto simp add: getBlockNumber_def prog_defs fetch_def)
qed

theorem rpc_operations_error_and_result_witness:
  "(\<exists>e. fst (simulateTransaction sample_platform (rpc sample_client) ''0x01'' ''has_profile''
            [JStr ''0x02''] (sample_world [json_response error_body])) = Inl e)
   \<and> fst (simulateTransaction sample_platform (rpc sample_client) ''0x01'' ''has_profile''
            [JStr ''0x02''] (sample_world [json_response null_error_body]))
       = Inr (JNum (Finite 5))
   \<and> fst (getBlockNumber (rpc sample_client) (sample_world [json_response null_error_body]))
       = Inr (JNum (Finite 5))
   \<and> fst (getBlockNumber (rpc sample_client) (sample_world [])) = Inr (JNum (Finite 0))
   \<and> fst (getBlockNumber (rpc sample_client) (sample_world [bad_json_response]))
       = Inr (JNum (Finite 0))
   \<and> fst (getBlockNumber (rpc sample_client) (sample_world [json_response Null]))
       = Inr (JNum (Finite 0))"
proof -
  let ?w1 = "sample_world [json_response error_body]"
  let ?w2 = "sample_world [json_response null_error_body]"
  let ?w3 = "sample_world []"
  let ?w4 = "sample_world [bad_json_response]"
  let ?w5 = "sample_world [json_response Null]"
  let ?r1 = "\<lparr>ok = True, status = 200, statusText = ''OK'', json = Inr error_body\<rparr>"
  let ?r2 = "\<lparr>ok = True, status = 200, statusText = ''OK'', json = Inr null_error_body\<rparr>"
  let ?r4 = "\<lparr>ok = True, status = 200, statusText = ''OK'',
              json = Inl (Error ''Unexpected token < in JSON at position 0'')\<rparr>"
  let ?r5 = "\<lparr>ok = True, status = 200, statusText = ''OK'', json = Inr Null\<rparr>"
  have h1: "net ?w1 (length (sent ?w1)) = Resolves ?r1 \<and> json ?r1 = Inr error_body
            \<and> \<not> nullish error_body"
    by (simp add: sample_world_def json_response_def error_body_def)
  have t1: "truthy (opt_prop error_body ''error'')"
    by (simp add: error_body_def opt_prop_def)
  have h2: "net ?w2 (length (sent ?w2)) = Resolves ?r2 \<and> json ?r2 = Inr null_error_body
            \<and> \<not> nullish null_error_body"
    by (simp add: sample_world_def json_response_def null_error_body_def)
  have t2: "\<not> truthy (opt_prop null_error_body ''error'')"
    and v2: "opt_prop null_error_body ''result'' = JNum (Finite 5)"
    by (simp_all add: null_error_body_def opt_prop_def)
  have h3: "net ?w3 (length (sent ?w3)) = Rejects (TypeError ''Failed to fetch'')"
    by (simp add: sample_world_def)
  have h4: "net ?w4 (length (sent ?w4)) = Resolves ?r4
            \<and> json ?r4 = Inl (Error ''Unexpected token < in JSON at position 0'')"
    by (simp add: sample_world_def bad_json_response_def)
  have h5: "net ?w5 (length (sent ?w5)) = Resolves ?r5 \<and> json ?r5 = Inr Null \<and> nullish Null"
    by (simp add: sample_world_def json_response_def)
  note main = rpc_operations_error_and_result
  have c1: "\<exists>e. fst (simulateTransaction sample_platform (rpc sample_client) ''0x01''
              ''has_profile'' [JStr ''0x02''] ?w1) = Inl e"
    using main [of "rpc sample_client" ?w1 ?r1 error_body sample_platform "''0x01''"
        "''has_profile''" "[JStr ''0x02'']"] h1 t1
    by blast
  have c2: "fst (simulateTransaction sample_platform (rpc sample_client) ''0x01''
              ''has_profile'' [JStr ''0x02''] ?w2) = Inr (JNum (Finite 5))
          \<and> fst (getBlockNumber (rpc sample_client) ?w2) = Inr (JNum (Finite 5))"
    using main [of "rpc sample_client" ?w2 ?r2 null_error_body sample_platform "''0x01''"
        "''has_profile''" "[JStr ''0x02'']"] h2 t2 v2
    by simp
  have c3: "fst (getBlockNumber (rpc sample_client) ?w3) = Inr (JNum (Finite 0))"
    using main [of "rpc sample_client" ?w3] h3 by blast
  have c4: "fst (getBlockNumber (rpc sample_client) ?w4) = Inr (JNum (Finite 0))"
    using main [of "rpc sample_client" ?w4 ?r4] h4 by blast
  have c5: "fst (getBlockNumber (rpc sample_client) ?w5) = Inr (JNum (Finite 0))"
    using main [of "rpc sample_client" ?w5 ?r5 Null] h5 by blast
  from c1 c2 c3 c4 c5 show ?thesis by blast
qed

section \<open>AztecAccountAbstraction: the fallback address\<close>

text \<open>
  C7. When \<open>createAAAccount\<close> succeeds and the result of the account-creation
  response holds no (truthy) \<open>address\<close>, the address of the success record is
  \<open>0x\<close> followed by the hexadecimal form of 32 bytes drawn from
  \<open>crypto.getRandomValues\<close>: the second 32 bytes drawn by the call. The deployment
  transaction that was sent carries the address made of the first 32 bytes drawn, and
  the two addresses are equal only if the two draws are.
\<close>

theorem createAAAccount_fallback_address:
  assumes run: "createAAAccount P this w = (Inr (r, this'), w')"
    and succ: "success r"
    and resp: "net w (Suc (length (sent w))) = Resolves createResponse"
    and js: "json createResponse = Inr createResult"
    and noaddr: "\<not> truthy (opt_prop (opt_prop createResult ''result'') ''address'')"
  shows "address r = Some (JStr (''0x'' @ hex_bytes
             (map (random_bytes w) [bytes_drawn w + 32 ..< bytes_drawn w + 64])))
    \<and> (\<exists>argsHash ident. sent w' = sent w @ [AA_request statusPayload,
          AA_request (createAccountPayload
            (''0x'' @ hex_bytes (map (random_bytes w) [bytes_drawn w ..< bytes_drawn w + 32]))
            argsHash ident)])
    \<and> (address r = Some (JStr (''0x'' @ hex_bytes
             (map (random_bytes w) [bytes_drawn w ..< bytes_drawn w + 32])))
        \<longleftrightarrow> map (random_bytes w) [bytes_drawn w + 32 ..< bytes_drawn w + 64]
            = map (random_bytes w) [bytes_drawn w ..< bytes_drawn w + 32])"
proof -
  have a: "address r = Some (JStr (''0x'' @ hex_bytes
             (map (random_bytes w) [bytes_drawn w + 32 ..< bytes_drawn w + 64])))
    \<and> (\<exists>argsHash ident. sent w' = sent w @ [AA_request statusPayload,
          AA_request (createAccountPayload
            (''0x'' @ hex_bytes (map (random_bytes w) [bytes_drawn w ..< bytes_drawn w + 32]))
            argsHash ident)])"
    using assms
    apply (simp add: createAAAccount_def createAAAccount_try_def)
    apply (auto simp add: prog_defs fetch_def generateAAAddress_def getRandomValues_def
        AA_hashString_def Math_random_def failure_def add.commute
        split: fetch_outcome.splits sum.splits if_splits prod.splits
        dest!: get_prop_Inr_opt_prop)
     apply (rule exI, rule exI, rule refl)+
    done
  then show ?thesis
    by (auto dest: hex_bytes_inj)
qed

theorem createAAAccount_fallback_address_witness:
  "\<exists>r this' w'. createAAAccount sample_platform new_AztecAccountAbstraction sample_aa_world
       = (Inr (r, this'), w') \<and> success r
     \<and> address r = Some (JStr (''0x'' @ hex_bytes (map of_nat [32 ..< 64])))
     \<and> address r \<noteq> Some (JStr (''0x'' @ hex_bytes (map of_nat [0 ..< 32])))"
proof -
  let ?w = sample_aa_world
  let ?resp = "\<lparr>ok = True, status = 200, statusText = ''OK'',
       json = Inr (JObj [(''result'', JObj [(''transactionHash'', JStr ''0xabc'')])])\<rparr>"
  from sample_run obtain r this' w'
    where run: "createAAAccount sample_platform new_AztecAccountAbstraction ?w = (Inr (r, this'), w')"
      and succ: "success r"
    by blast
  have resp: "net ?w (Suc (length (sent ?w))) = Resolves ?resp"
    by (simp add: sample_aa_world_def sample_world_def json_response_def)
  have js: "json ?resp = Inr (JObj [(''result'', JObj [(''transactionHash'', JStr ''0xabc'')])])"
    by simp
  have noaddr: "\<not> truthy (opt_prop (opt_prop
       (JObj [(''result'', JObj [(''transactionHash'', JStr ''0xabc'')])]) ''result'') ''address'')"
    by (simp add: opt_prop_def)
  have b: "bytes_drawn ?w = 0" and rb: "random_bytes ?w = of_nat"
    by (simp_all add: sample_aa_world_def sample_world_def)
  have ne: "map of_nat [32 ..< 64] \<noteq> (map of_nat [0 ..< 32] :: 8 word list)"
    by (simp add: upt_conv_Cons)
  note c7 = createAAAccount_fallback_address [OF run succ resp js noaddr, unfolded b rb add_0]
  from c7 have "address r = Some (JStr (''0x'' @ hex_bytes (map of_nat [32 ..< 64])))"
    by blast
  moreover from c7 ne
  have "address r \<noteq> Some (JStr (''0x'' @ hex_bytes (map of_nat [0 ..< 32])))"
    by blast
  ultimately
  have "address r = Some (JStr (''0x'' @ hex_bytes (map of_nat [32 ..< 64])))
     \<and> address r \<noteq> Some (JStr (''0x'' @ hex_bytes (map of_nat [0 ..< 32])))"
    by blast
  with run succ show ?thesis by blast
qed

section \<open>AzGuard: connecting\<close>

text \<open>
  C2. When \<open>isAzguardInstalled()\<close> yields \<open>false\<close>, \<open>connectAzGuard\<close> returns (it
  does not throw) a result with \<open>success: false\<close> and an error string; when opening the
  install page does not fail, that string is \<open>AzGuard wallet not installed\<close>.
\<close>

theorem connectAzGuard_not_installed:
  assumes "isAzguardInstalled env = Inr False"
  shows "(\<exists>r msg. fst (connectAzGuard env st) = Inr r \<and> \<not> success r \<and> error r = Some msg)
       \<and> (window_open env = None \<longrightarrow>
            fst (connectAzGuard env st) = Inr (failure ''AzGuard wallet not installed''))"
  using assms
  by (auto simp add: connectAzGuard_def connectAzGuard_try_def prog_defs set_azguardInstance_def
       open_window_def failure_def split: option.splits)

theorem connectAzGuard_not_installed_witness:
  "isAzguardInstalled wallet_absent = Inr False
   \<and> fst (connectAzGuard wallet_absent fresh_module) = Inr (failure ''AzGuard wallet not installed'')
   \<and> \<not> success (failure ''AzGuard wallet not installed'' :: AccountWrapper AccountResult)"
proof -
  have h: "isAzguardInstalled wallet_absent = Inr False"
    by (simp add: wallet_absent_def)
  have "window_open wallet_absent = None"
    by (simp add: wallet_absent_def)
  with connectAzGuard_not_installed [OF h, of fresh_module] h show ?thesis
    by (simp add: failure_def)
qed

text \<open>
  C4. When the wallet is installed, a client is obtained and connects, and its first
  account is a string \<open>s\<close>: if \<open>s\<close> contains a colon, the address of the result is the
  segment of \<open>s\<close> after its last colon (for \<open>aztec:11155111:0xABC\<close>, \<open>0xABC\<close>); if
  \<open>s\<close> contains no colon, the address is \<open>s\<close> itself.
\<close>

theorem connectAzGuard_address_extraction:
  assumes "isAzguardInstalled env = Inr True"
    and "AzguardClient_create env = Inr (Some c)"
    and "connected c \<or> connect_outcome c = None"
    and "accounts c = Some (JStr s # others)"
  shows "(\<forall>pre a. s = pre @ CHR '':'' # a \<and> CHR '':'' \<notin> set a \<longrightarrow>
            (\<exists>r. fst (connectAzGuard env st) = Inr r \<and> success r \<and> address r = Some (JStr a)))
       \<and> (CHR '':'' \<notin> set s \<longrightarrow>
            (\<exists>r. fst (connectAzGuard env st) = Inr r \<and> success r \<and> address r = Some (JStr s)))"
  using assms
  by (auto simp add: connectAzGuard_def connectAzGuard_try_def prog_defs set_azguardInstance_def
       parse_address_colon parse_address_plain split: option.splits)

theorem connectAzGuard_address_extraction_witness:
  "\<exists>r. fst (connectAzGuard (wallet_installed (sample_wallet [JStr ''aztec:11155111:0xABC'']))
              fresh_module) = Inr r
       \<and> success r \<and> address r = Some (JStr ''0xABC'')"
proof -
  let ?c = "sample_wallet [JStr ''aztec:11155111:0xABC'']"
  have h1: "isAzguardInstalled (wallet_installed ?c) = Inr True"
    and h2: "AzguardClient_create (wallet_installed ?c) = Inr (Some ?c)"
    by (simp_all add: wallet_installed_def)
  have h3: "connected ?c \<or> connect_outcome ?c = None"
    and h4: "accounts ?c = Some (JStr ''aztec:11155111:0xABC'' # [])"
    by (simp_all add: sample_wallet_def)
  have "''aztec:11155111:0xABC'' = ''aztec:11155111'' @ CHR '':'' # ''0xABC''
        \<and> CHR '':'' \<notin> set ''0xABC''"
    by simp
  with connectAzGuard_address_extraction [OF h1 h2 h3 h4, of fresh_module] show ?thesis
    by blast
qed

text \<open>
  C9. Whenever the \<open>try\<close> block of \<open>connectAzGuard\<close> throws, so that the result comes
  from the \<open>catch\<close> block, the call returns \<open>success: false\<close> and leaves
  \<open>azguardInstance\<close> \<open>null\<close>, whatever it held before: \<open>getAzGuardInstance()\<close> then
  returns \<open>null\<close>.
\<close>

theorem connectAzGuard_catch_clears_instance:
  assumes "fst (connectAzGuard_try env st) = Inl e"
  shows "getAzGuardInstance (snd (connectAzGuard env st)) = None
       \<and> (\<exists>r. fst (connectAzGuard env st) = Inr r \<and> \<not> success r)"
  using assms
  by (auto simp add: connectAzGuard_def prog_defs set_azguardInstance_def getAzGuardInstance_def
       failure_def split: prod.splits sum.splits)

theorem connectAzGuard_catch_clears_instance_witness:
  "getAzGuardInstance stale_module \<noteq> None
   \<and> fst (connectAzGuard_try wallet_rejecting stale_module) = Inl (Error ''User rejected the request'')
   \<and> getAzGuardInstance (snd (connectAzGuard wallet_rejecting stale_module)) = None"
proof -
  have h: "fst (connectAzGuard_try wallet_rejecting stale_module)
             = Inl (Error ''User rejected the request'')"
    by (simp add: connectAzGuard_try_def wallet_rejecting_def prog_defs)
  have "getAzGuardInstance stale_module \<noteq> None"
    by (simp add: getAzGuardInstance_def stale_module_def)
  with connectAzGuard_catch_clears_instance [OF h] h show ?thesis by simp
qed

section \<open>AztecContractClient: defaults on failure\<close>

text \<open>
  C3. Whenever the underlying \<open>simulateTransaction\<close> call throws, whatever the
  exception, \<open>getProfileVerifications\<close> returns exactly six \<open>false\<close> values,
  \<open>hasProfile\<close> returns \<open>false\<close>, \<open>getProfileId\<close> returns \<open>'0'\<close> and
  \<open>getTotalProfiles\<close> returns \<open>0\<close>; none of them throws.
\<close>

theorem read_methods_default_on_exception:
  "(\<forall>e. fst (simulateTransaction P (rpc this) (privateSocialAddress this)
              ''get_profile_verifications'' [JStr profileId] w) = Inl e
        \<longrightarrow> fst (getProfileVerifications P this profileId w)
              = Inr (JArr [JBool False, JBool False, JBool False, JBool False, JBool False, JBool False]))
   \<and> (\<forall>e. fst (simulateTransaction P (rpc this) (profileRegistryAddress this)
              ''has_profile'' [JStr user] w) = Inl e
        \<longrightarrow> fst (hasProfile P this user w) = Inr False)
   \<and> (\<forall>e. fst (simulateTransaction P (rpc this) (profileRegistryAddress this)
              ''get_profile_id'' [JStr user] w) = Inl e
        \<longrightarrow> fst (getProfileId P this user w) = Inr ''0'')
   \<and> (\<forall>e. fst (simulateTransaction P (rpc this) (profileRegistryAddress this)
              ''get_total_profiles'' [] w) = Inl e
        \<longrightarrow> fst (getTotalProfiles P this w) = Inr (Finite 0))"
  by (auto simp add: getProfileVerifications_def hasProfile_def getProfileId_def
        getTotalProfiles_def six_false_def bind_js_def try_catch_def return_js_def
      split: prod.splits sum.splits)

theorem read_methods_default_on_exception_witness:
  "fst (simulateTransaction sample_platform (rpc sample_client) (privateSocialAddress sample_client)
          ''get_profile_verifications'' [JStr ''1''] (sample_world []))
     = Inl (TypeError ''Failed to fetch'')
   \<and> fst (getProfileVerifications sample_platform sample_client ''1'' (sample_world []))
     = Inr (JArr [JBool False, JBool False, JBool False, JBool False, JBool False, JBool False])
   \<and> fst (hasProfile sample_platform sample_client ''0x02'' (sample_world [])) = Inr False
   \<and> fst (getProfileId sample_platform sample_client ''0x02'' (sample_world [])) = Inr ''0''
   \<and> fst (getTotalProfiles sample_platform sample_client (sample_world [])) = Inr (Finite 0)"
proof -
  have h: "net (sample_world []) (length (sent (sample_world [])))
             = Rejects (TypeError ''Failed to fetch'')"
    by (simp add: sample_world_def)
  show ?thesis
    using read_methods_default_on_exception
            [of sample_platform sample_client "''1''" "sample_world []" "''0x02''"]
      simulate_fetch_rejects [OF h]
    by simp
qed

section \<open>AztecRPCClient: the local routines\<close>

text \<open>
  C5. \<open>hashString\<close> is a pure function of its input: two calls with the same input
  return the same string, whatever the client object and the state of the world
  (network, random sources, earlier calls) they run in; a call returns (it does not
  throw) and leaves the world as it was.
\<close>

theorem hashString_deterministic:
  "fst (hashString this1 input w1) = fst (hashString this2 input w2)
   \<and> (\<exists>out. fst (hashString this1 input w1) = Inr out)
   \<and> snd (hashString this1 input w1) = w1"
  by (simp add: hashString_def return_js_def)

text \<open>
  C8. \<open>sendTransaction\<close> makes no request: for every input it returns, without
  throwing, an object whose \<open>status\<close> is \<open>success\<close> and whose \<open>gasUsed\<close> is
  \<open>21000\<close>; its \<open>transactionHash\<close> and \<open>blockNumber\<close> are computed from the next two
  draws of \<open>Math.random\<close> alone, and the call changes nothing in the world but the
  count of those draws: the list of requests sent is as before.
\<close>

theorem sendTransaction_mock_success:
  "fst (sendTransaction P this contractAddress functionName params from w) =
     Inr (JObj [
       (''transactionHash'',
          JStr (''0x'' @ substring 2 66 (Number_toString P (math_random w (randoms_drawn w)) 16))),
       (''status'', JStr ''success''),
       (''blockNumber'',
          JNum (Math_floor P (num_times P (math_random w (randoms_drawn w + 1)) (Finite 1000000)))),
       (''gasUsed'', JStr ''21000'')])
   \<and> sent (snd (sendTransaction P this contractAddress functionName params from w)) = sent w
   \<and> snd (sendTransaction P this contractAddress functionName params from w)
       = w\<lparr>randoms_drawn := randoms_drawn w + 2\<rparr>"
  by (simp add: sendTransaction_def prog_defs Math_random_def)

section \<open>Wallet objects: disconnecting\<close>

text \<open>
  C10. After \<open>disconnect()\<close>, in whatever state the object was, an
  \<open>AztecSponsoredWallet\<close> holds \<open>null\<close> for \<open>account\<close> and \<open>keyPair\<close> and an
  \<open>AztecAccountAbstraction\<close> holds \<open>null\<close> for \<open>account\<close> and \<open>pxe\<close>, so
  \<open>getCurrentAccount()\<close> returns \<open>null\<close>.
\<close>

theorem disconnect_clears_account:
  "SW_getCurrentAccount (SW_disconnect s) = None \<and> SW_keyPair (SW_disconnect s) = None
   \<and> AA_getCurrentAccount (AA_disconnect t) = Null \<and> AA_pxe (AA_disconnect t) = Null"
  by (simp add: SW_getCurrentAccount_def SW_disconnect_def AA_getCurrentAccount_def
        AA_disconnect_def)

end
